theory Spec2Isabelle
  imports Complex_Main
begin

section \<open>Floating-point values\<close>

text \<open>
  The tensors of \<^verbatim>\<open>gaussian.cu\<close> hold 32-bit floats. A value is modelled as a real
  number or one of the three special values of IEEE arithmetic. Rounding, overflow and
  the sign of zero are not modelled: a finite result is the exact real result.
\<close>

datatype fl = Fin real | PInf | NInf | NaN

definition isnan :: "fl \<Rightarrow> bool" where
  "isnan x = (x = NaN)"

definition inf_of :: "real \<Rightarrow> fl" where
  "inf_of s = (if 0 < s then PInf else if s < 0 then NInf else NaN)"

fun fsign :: "fl \<Rightarrow> real" where
  "fsign (Fin a) = sgn a"
| "fsign PInf = 1"
| "fsign NInf = - 1"
| "fsign NaN = 0"

fun fneg :: "fl \<Rightarrow> fl" where
  "fneg (Fin a) = Fin (- a)"
| "fneg PInf = NInf"
| "fneg NInf = PInf"
| "fneg NaN = NaN"

fun fadd :: "fl \<Rightarrow> fl \<Rightarrow> fl" where
  "fadd (Fin a) (Fin b) = Fin (a + b)"
| "fadd NaN _ = NaN"
| "fadd _ NaN = NaN"
| "fadd PInf NInf = NaN"
| "fadd NInf PInf = NaN"
| "fadd PInf _ = PInf"
| "fadd _ PInf = PInf"
| "fadd NInf _ = NInf"
| "fadd _ NInf = NInf"

definition fsub :: "fl \<Rightarrow> fl \<Rightarrow> fl" where
  "fsub a b = fadd a (fneg b)"

fun fmul :: "fl \<Rightarrow> fl \<Rightarrow> fl" where
  "fmul (Fin a) (Fin b) = Fin (a * b)"
| "fmul NaN _ = NaN"
| "fmul _ NaN = NaN"
| "fmul x y = inf_of (fsign x * fsign y)"

fun fdiv :: "fl \<Rightarrow> fl \<Rightarrow> fl" where
  "fdiv (Fin a) (Fin b) = (if b = 0 then inf_of a else Fin (a / b))"
| "fdiv NaN _ = NaN"
| "fdiv _ NaN = NaN"
| "fdiv (Fin a) _ = Fin 0"
| "fdiv x (Fin b) = (if b < 0 then fneg x else x)"
| "fdiv _ _ = NaN"

fun fsqrt :: "fl \<Rightarrow> fl" where
  "fsqrt (Fin a) = (if 0 \<le> a then Fin (sqrt a) else NaN)"
| "fsqrt PInf = PInf"
| "fsqrt NInf = NaN"
| "fsqrt NaN = NaN"

fun fexp :: "fl \<Rightarrow> fl" where
  "fexp (Fin a) = Fin (exp a)"
| "fexp PInf = PInf"
| "fexp NInf = Fin 0"
| "fexp NaN = NaN"

fun flog :: "fl \<Rightarrow> fl" where
  "flog (Fin a) = (if 0 < a then Fin (ln a) else if a = 0 then NInf else NaN)"
| "flog PInf = PInf"
| "flog NInf = NaN"
| "flog NaN = NaN"

text \<open>Comparisons: every comparison with a NaN is false.\<close>

fun fle :: "fl \<Rightarrow> fl \<Rightarrow> bool" where
  "fle NaN _ = False"
| "fle _ NaN = False"
| "fle (Fin a) (Fin b) = (a \<le> b)"
| "fle NInf _ = True"
| "fle _ PInf = True"
| "fle _ _ = False"

definition flt :: "fl \<Rightarrow> fl \<Rightarrow> bool" where
  "flt a b = (fle a b \<and> \<not> fle b a)"

definition fge :: "fl \<Rightarrow> fl \<Rightarrow> bool" where
  "fge a b = fle b a"

definition fgt :: "fl \<Rightarrow> fl \<Rightarrow> bool" where
  "fgt a b = flt b a"

text \<open>\<^verbatim>\<open>torch::max\<close> hands a NaN on.\<close>

definition fmax :: "fl \<Rightarrow> fl \<Rightarrow> fl" where
  "fmax a b = (if isnan a \<or> isnan b then NaN else if fle a b then b else a)"

text \<open>The 2-norm of all entries: \<^verbatim>\<open>t.norm()\<close>, and \<^verbatim>\<open>norm(2, -1, true)\<close> on one row.\<close>

definition norm2 :: "fl list \<Rightarrow> fl" where
  "norm2 xs = fsqrt (foldr fadd (map (\<lambda>x. fmul x x) xs) (Fin 0))"

section \<open>Errors and tensors\<close>

text \<open>
  \<open>RuntimeError\<close> is a \<^verbatim>\<open>std::runtime_error\<close> thrown by the repository's own code;
  \<open>IndexError\<close> and \<open>ShapeError\<close> are the exceptions libtorch raises for an index out of
  range, for shapes that do not broadcast and for an operation on an undefined tensor;
  \<open>UndefinedBehaviour\<close> stands for the places where the C++ reads a vector out of range
  or dereferences a null pointer.
\<close>

datatype error = RuntimeError string | IndexError | ShapeError | UndefinedTensor | UndefinedBehaviour

text \<open>
  A tensor is its rows along dimension 0, each row flattened. The trailing dimensions are
  fixed when the model is created and no operation below changes them, so they are not
  re-checked. \<open>impl\<close> is the address of the \<^verbatim>\<open>TensorImpl\<close>: libtorch's Adam files its
  per-parameter state under that address. \<open>grad\<close> is \<open>None\<close> while \<^verbatim>\<open>.grad()\<close> is undefined.
\<close>

record tensor =
  impl :: nat
  rows :: "fl list list"
  grad :: "fl list list option"

definition grad_defined :: "tensor \<Rightarrow> bool" where
  "grad_defined t = (grad t \<noteq> None)"

definition size0 :: "tensor \<Rightarrow> nat" where
  "size0 t = length (rows t)"

definition zeros_like :: "fl list list \<Rightarrow> fl list list" where
  "zeros_like rs = map (map (\<lambda>_. Fin 0)) rs"

text \<open>\<^verbatim>\<open>torch::nonzero\<close> of a one-dimensional mask: the positions that hold true, ascending.\<close>

definition nonzero :: "bool list \<Rightarrow> nat list" where
  "nonzero msk = filter (\<lambda>i. msk ! i) [0..<length msk]"

text \<open>\<^verbatim>\<open>index_select(0, idx)\<close> gathers rows; an index out of range raises.\<close>

definition index_select :: "'a list \<Rightarrow> nat list \<Rightarrow> error + 'a list" where
  "index_select xs idx =
     (if list_all (\<lambda>i. i < length xs) idx then Inr (map (\<lambda>i. xs ! i) idx) else Inl IndexError)"

section \<open>The optimizer\<close>

record adam_param_state =
  step :: nat
  exp_avg :: "fl list list"
  exp_avg_sq :: "fl list list"

text \<open>
  \<open>param_groups\<close> lists, for every group, its \<^verbatim>\<open>params()\<close>; \<open>state\<close> is Adam's map from
  the address of a parameter to its momentum and variance.
\<close>

record adam =
  param_groups :: "tensor list list"
  state :: "nat \<Rightarrow> adam_param_state option"

text \<open>\<^verbatim>\<open>optimizer->param_groups()[pos].params()[0] = t\<close>\<close>

definition set_param :: "adam \<Rightarrow> nat \<Rightarrow> tensor \<Rightarrow> error + adam" where
  "set_param opt pos t =
     (if pos < length (param_groups opt) \<and> param_groups opt ! pos \<noteq> []
      then Inr (opt\<lparr>param_groups := (param_groups opt)[pos := (param_groups opt ! pos)[0 := t]]\<rparr>)
      else Inl UndefinedBehaviour)"

section \<open>The Gaussian model\<close>

text \<open>
  The members of \<^verbatim>\<open>GaussianModel\<close> that the operations below read or write. The two
  accumulators have shape \<open>[N, 1]\<close> and \<open>max_radii2D\<close> has shape \<open>[N]\<close>: one float per
  primitive. \<open>next_impl\<close> is the allocator: the address the next new tensor gets;
  addresses are never handed out twice.
\<close>

record gaussian_model =
  xyz :: tensor
  features_dc :: tensor
  features_rest :: tensor
  scaling :: tensor
  rotation :: tensor
  opacity :: tensor
  max_radii2D :: "fl list"
  xyz_gradient_accum :: "fl list"
  denom :: "fl list"
  percent_dense :: fl
  optimizer :: adam
  next_impl :: nat

text \<open>
  A member function returns the exception it threw, if any, and the model as it stands
  at that moment. \<open>and_then\<close> runs the second step only when the first returned normally.
\<close>

definition and_then ::
  "(gaussian_model \<Rightarrow> error option \<times> gaussian_model) \<Rightarrow>
   (gaussian_model \<Rightarrow> error option \<times> gaussian_model) \<Rightarrow>
   gaussian_model \<Rightarrow> error option \<times> gaussian_model" where
  "and_then f g m = (case f m of (None, m') \<Rightarrow> g m' | (Some e, m') \<Rightarrow> (Some e, m'))"

text \<open>
  Modelled from the spec: the sigmoid behind \<^verbatim>\<open>Get_opacity\<close>, from the missing header
  \<^verbatim>\<open>gaussian.cuh\<close>. The spec's activated opacity is \<open>sigmoid(rawOpacity)\<close>.
\<close>

definition sigmoid :: "fl \<Rightarrow> fl" where
  "sigmoid x = fdiv (Fin 1) (fadd (Fin 1) (fexp (fneg x)))"

text \<open>
  Modelled from the spec: \<^verbatim>\<open>inverse_sigmoid\<close>, from the missing header. The spec resets
  the opacity to the inverse sigmoid of 0.01. As everywhere, the value is the unrounded
  one: what float32 makes of it, and of its sigmoid, is not modelled.
\<close>

definition inverse_sigmoid :: "fl \<Rightarrow> fl" where
  "inverse_sigmoid x = flog (fdiv x (fsub (Fin 1) x))"

text \<open>
  Modelled from the spec: \<^verbatim>\<open>Get_scaling\<close>, from the missing header. The spec's actual
  scale is \<open>exp(logScale)\<close>.
\<close>

definition Get_scaling :: "gaussian_model \<Rightarrow> fl list list" where
  "Get_scaling m = map (map fexp) (rows (scaling m))"

text \<open>
  Modelled from the spec: \<^verbatim>\<open>Get_opacity\<close>, from the missing header. The spec's actual
  opacity is \<open>sigmoid(rawOpacity)\<close>.
\<close>

definition Get_opacity :: "gaussian_model \<Rightarrow> fl list list" where
  "Get_opacity m = map (map sigmoid) (rows (opacity m))"

subsection \<open>Save_as_ply\<close>

definition Save_as_ply :: "string \<Rightarrow> gaussian_model \<Rightarrow> error option \<times> gaussian_model" where
  "Save_as_ply filename m = (Some (RuntimeError ''Not implemented''), m)"

subsection \<open>Reset_opacity\<close>

definition mapping :: "string list" where
  "mapping = [''xyz'', ''features_dc'', ''features_rest'', ''scaling'', ''rotation'', ''opacity'']"

text \<open>
  The debugging loop over the groups. \<^verbatim>\<open>mapping[i]\<close> is printed before the checks, so a
  seventh group reads the vector out of range.
\<close>

fun check_groups :: "tensor list list \<Rightarrow> nat \<Rightarrow> error option" where
  "check_groups [] i = None"
| "check_groups (g # gs) i =
     (if length mapping \<le> i then Some UndefinedBehaviour
      else if length g \<noteq> 1 then Some (RuntimeError (''too many params: '' @ mapping ! i))
      else if \<not> grad_defined (g ! 0)
        then Some (RuntimeError (''param grad not defined: '' @ mapping ! i))
      else check_groups gs (Suc i))"

text \<open>
  After the loop: the new opacity tensor, the Adam state filed under the address of the
  parameter of group 5 (a missing entry is a null pointer, dereferenced), its two buffers
  zeroed, the parameter of group 5 and \<^verbatim>\<open>_opacity\<close> replaced by the new tensor.
\<close>

definition Reset_opacity :: "gaussian_model \<Rightarrow> error option \<times> gaussian_model" where
  "Reset_opacity m =
     (case check_groups (param_groups (optimizer m)) 0 of
        Some e \<Rightarrow> (Some e, m)
      | None \<Rightarrow>
          let new_rows = map (map (\<lambda>_. inverse_sigmoid (fmul (Fin 1) (Fin (1 / 100)))))
                             (Get_opacity m);
              opt = optimizer m
          in if \<not> (5 < length (param_groups opt) \<and> param_groups opt ! 5 \<noteq> [])
             then (Some UndefinedBehaviour, m)
             else
               (case state opt (impl (param_groups opt ! 5 ! 0)) of
                  None \<Rightarrow> (Some UndefinedBehaviour, m)
                | Some st \<Rightarrow>
                    let st' = st\<lparr>exp_avg := zeros_like new_rows,
                                 exp_avg_sq := zeros_like new_rows\<rparr>;
                        opt1 = opt\<lparr>state := (state opt)(impl (param_groups opt ! 5 ! 0) := Some st')\<rparr>;
                        new_opacity = \<lparr>impl = next_impl m, rows = new_rows, grad = None\<rparr>
                    in (case set_param opt1 5 new_opacity of
                          Inl e \<Rightarrow> (Some e, m)
                        | Inr opt2 \<Rightarrow>
                            (None, m\<lparr>opacity := new_opacity, optimizer := opt2,
                                      next_impl := Suc (next_impl m)\<rparr>))))"

subsection \<open>Tensor helpers\<close>

text \<open>
  \<open>try_with\<close> continues with the value of a libtorch call, or throws its exception with
  the model as it stands.
\<close>

definition try_with ::
  "error + 'a \<Rightarrow> gaussian_model \<Rightarrow> ('a \<Rightarrow> error option \<times> gaussian_model) \<Rightarrow>
   error option \<times> gaussian_model" where
  "try_with r m k = (case r of Inl e \<Rightarrow> (Some e, m) | Inr v \<Rightarrow> k v)"

text \<open>
  An element-wise operation on two tensors with one entry per row, broadcast along
  dimension 0 the way libtorch does: equal sizes, or one of the two of size 1.
\<close>

definition broadcast2 :: "('a \<Rightarrow> 'b \<Rightarrow> 'c) \<Rightarrow> 'a list \<Rightarrow> 'b list \<Rightarrow> error + 'c list" where
  "broadcast2 f xs ys =
     (if length xs = length ys then Inr (map2 f xs ys)
      else if length xs = 1 then Inr (map (f (xs ! 0)) ys)
      else if length ys = 1 then Inr (map (\<lambda>x. f x (ys ! 0)) xs)
      else Inl ShapeError)"

text \<open>\<^verbatim>\<open>std::get<0>(t.max(1))\<close>: the largest entry of every row; a row of size 0 raises.\<close>

definition max_dim1 :: "fl list list \<Rightarrow> error + fl list" where
  "max_dim1 rs =
     (if list_ex (\<lambda>r. r = []) rs then Inl IndexError
      else Inr (map (\<lambda>r. fold fmax (tl r) (hd r)) rs))"

text \<open>\<^verbatim>\<open>t.repeat({N, 1}, 0)\<close>: the rows, N times over.\<close>

definition repeat_rows :: "nat \<Rightarrow> 'a list \<Rightarrow> 'a list" where
  "repeat_rows n xs = concat (replicate n xs)"

text \<open>One batch entry of \<^verbatim>\<open>torch::bmm(rots, samples.unsqueeze(-1)).squeeze(-1)\<close>.\<close>

definition mat_vec :: "fl list list \<Rightarrow> fl list \<Rightarrow> fl list" where
  "mat_vec a v = map (\<lambda>r. foldr fadd (map2 fmul r v) (Fin 0)) a"

text \<open>
  \<^verbatim>\<open>t.index_put_({mask}, values)\<close> for a boolean mask as long as \<open>t\<close>: the k-th true
  position receives the k-th value.
\<close>

fun index_put_mask :: "'a list \<Rightarrow> bool list \<Rightarrow> 'a list \<Rightarrow> 'a list" where
  "index_put_mask (x # xs) (b # bs) vs =
     (if b then (case vs of [] \<Rightarrow> x # index_put_mask xs bs [] | v # vs' \<Rightarrow> v # index_put_mask xs bs vs')
      else x # index_put_mask xs bs vs)"
| "index_put_mask xs _ _ = xs"

subsection \<open>prune_points\<close>

text \<open>
  The argument \<open>msk\<close> of \<open>prune_optimizer\<close> is, as in the source, a tensor of indices.
  \<open>addr\<close> is the address of the tensor that \<^verbatim>\<open>index_select\<close> allocates.
\<close>

definition prune_optimizer :: "adam \<Rightarrow> nat list \<Rightarrow> tensor \<Rightarrow> nat \<Rightarrow> nat \<Rightarrow> error + tensor \<times> adam" where
  "prune_optimizer opt msk old_tensor param_position addr =
     (case index_select (rows old_tensor) msk of
        Inl e \<Rightarrow> Inl e
      | Inr rs \<Rightarrow>
          let t = \<lparr>impl = addr, rows = rs, grad = None\<rparr> in
          (case set_param opt param_position t of
             Inl e \<Rightarrow> Inl e
           | Inr opt' \<Rightarrow> Inr (t, opt')))"

text \<open>A call \<^verbatim>\<open>prune_optimizer(_optimizer.get(), indices, member, pos)\<close> on one member.\<close>

definition prune_member ::
  "nat list \<Rightarrow> (gaussian_model \<Rightarrow> tensor) \<Rightarrow>
   ((tensor \<Rightarrow> tensor) \<Rightarrow> gaussian_model \<Rightarrow> gaussian_model) \<Rightarrow> nat \<Rightarrow>
   gaussian_model \<Rightarrow> error option \<times> gaussian_model" where
  "prune_member indices member member_update pos m =
     (case prune_optimizer (optimizer m) indices (member m) pos (next_impl m) of
        Inl e \<Rightarrow> (Some e, m)
      | Inr (t, opt') \<Rightarrow>
          (None, (member_update (\<lambda>_. t) m)\<lparr>optimizer := opt', next_impl := Suc (next_impl m)\<rparr>))"

text \<open>The second half of \<open>prune_points\<close>: the three bookkeeping buffers.\<close>

definition prune_stats :: "bool list \<Rightarrow> gaussian_model \<Rightarrow> error option \<times> gaussian_model" where
  "prune_stats msk m =
     (let valid_points_mask = map Not msk;
          indices = nonzero valid_points_mask
      in try_with (index_select (xyz_gradient_accum m) indices) m (\<lambda>acc.
         let m1 = m\<lparr>xyz_gradient_accum := acc\<rparr> in
         try_with (index_select (denom m1) indices) m1 (\<lambda>den.
         let m2 = m1\<lparr>denom := den\<rparr> in
         try_with (index_select (max_radii2D m2) indices) m2 (\<lambda>rad.
         (None, m2\<lparr>max_radii2D := rad\<rparr>)))))"

definition prune_points :: "bool list \<Rightarrow> gaussian_model \<Rightarrow> error option \<times> gaussian_model" where
  "prune_points msk =
     (let indices = nonzero msk
      in and_then (prune_member indices xyz xyz_update 0)
        (and_then (prune_member indices features_dc features_dc_update 1)
        (and_then (prune_member indices features_rest features_rest_update 2)
        (and_then (prune_member indices scaling scaling_update 3)
        (and_then (prune_member indices rotation rotation_update 4)
        (and_then (prune_member indices opacity opacity_update 5)
                  (prune_stats msk)))))))"

subsection \<open>densification_postfix\<close>

definition cat_tensors_to_optimizer ::
  "adam \<Rightarrow> fl list list \<Rightarrow> tensor \<Rightarrow> string \<Rightarrow> nat \<Rightarrow> nat \<Rightarrow> error + tensor \<times> adam" where
  "cat_tensors_to_optimizer opt extension_tensor old_tensor nm param_position addr =
     (let t = \<lparr>impl = addr, rows = rows old_tensor @ extension_tensor, grad = None\<rparr> in
      case set_param opt param_position t of
        Inl e \<Rightarrow> Inl e
      | Inr opt' \<Rightarrow> Inr (t, opt'))"

definition cat_member ::
  "fl list list \<Rightarrow> (gaussian_model \<Rightarrow> tensor) \<Rightarrow>
   ((tensor \<Rightarrow> tensor) \<Rightarrow> gaussian_model \<Rightarrow> gaussian_model) \<Rightarrow> string \<Rightarrow> nat \<Rightarrow>
   gaussian_model \<Rightarrow> error option \<times> gaussian_model" where
  "cat_member extension_tensor member member_update nm pos m =
     (case cat_tensors_to_optimizer (optimizer m) extension_tensor (member m) nm pos (next_impl m) of
        Inl e \<Rightarrow> (Some e, m)
      | Inr (t, opt') \<Rightarrow>
          (None, (member_update (\<lambda>_. t) m)\<lparr>optimizer := opt', next_impl := Suc (next_impl m)\<rparr>))"

text \<open>The loop of \<open>densification_postfix\<close> over the groups; it never increments \<open>i\<close>.\<close>

fun check_sizes :: "tensor list list \<Rightarrow> nat \<Rightarrow> error option" where
  "check_sizes [] i = None"
| "check_sizes (g # gs) i =
     (if length g \<noteq> 1 then Some (RuntimeError (''too many params: '' @ mapping ! i))
      else check_sizes gs i)"

definition reset_stats :: "gaussian_model \<Rightarrow> error option \<times> gaussian_model" where
  "reset_stats m =
     (None, m\<lparr>xyz_gradient_accum := replicate (size0 (xyz m)) (Fin 0),
              denom := replicate (size0 (xyz m)) (Fin 0),
              max_radii2D := replicate (size0 (xyz m)) (Fin 0)\<rparr>)"

definition densification_postfix ::
  "fl list list \<Rightarrow> fl list list \<Rightarrow> fl list list \<Rightarrow> fl list list \<Rightarrow> fl list list \<Rightarrow> fl list list \<Rightarrow>
   gaussian_model \<Rightarrow> error option \<times> gaussian_model" where
  "densification_postfix new_xyz new_features_dc new_features_rest new_scaling new_rotation
     new_opacity m =
     (if length (param_groups (optimizer m)) \<noteq> 6
      then (Some (RuntimeError ''optimizer param groups size not 6''), m)
      else
        (case check_sizes (param_groups (optimizer m)) 0 of
           Some e \<Rightarrow> (Some e, m)
         | None \<Rightarrow>
            and_then (cat_member new_xyz xyz xyz_update ''xyz'' 0)
           (and_then (cat_member new_features_dc features_dc features_dc_update ''features_dc'' 1)
           (and_then (cat_member new_features_rest features_rest features_rest_update ''features_rest'' 2)
           (and_then (cat_member new_scaling scaling scaling_update ''scaling'' 3)
           (and_then (cat_member new_rotation rotation rotation_update ''rotation'' 4)
           (and_then (cat_member new_opacity opacity opacity_update ''opacity'' 5)
                     reset_stats))))) m))"

subsection \<open>densify_and_split\<close>

text \<open>
  \<^verbatim>\<open>padded_grad.slice(0, 0, grads.size(0)) = grads.squeeze()\<close> on a tensor of
  \<open>n_init_points\<close> zeros. The slice ends at the end of \<open>padded_grad\<close> at the latest;
  the copy raises unless the gradients fit the slice or are a single number.
\<close>

definition padded_grad :: "nat \<Rightarrow> fl list \<Rightarrow> error + fl list" where
  "padded_grad n_init_points grads =
     (if length grads \<le> n_init_points \<or> length grads = 1
      then Inr (take n_init_points grads @ replicate (n_init_points - length grads) (Fin 0))
      else Inl ShapeError)"

definition split_selected_pts_mask :: "fl list \<Rightarrow> fl \<Rightarrow> fl \<Rightarrow> gaussian_model \<Rightarrow> error + bool list" where
  "split_selected_pts_mask grads grad_threshold scene_extent m =
     (case padded_grad (size0 (xyz m)) grads of
        Inl e \<Rightarrow> Inl e
      | Inr pg \<Rightarrow>
          (case max_dim1 (Get_scaling m) of
             Inl e \<Rightarrow> Inl e
           | Inr smax \<Rightarrow>
               broadcast2 (\<and>) (map (\<lambda>g. fge g grad_threshold) pg)
                 (map (\<lambda>s. fgt s (fmul (percent_dense m) scene_extent)) smax)))"

text \<open>
  \<open>randn i j\<close> is the entry of row \<open>i\<close>, column \<open>j\<close> that \<^verbatim>\<open>torch::randn\<close> draws.
  \<open>build_rotation\<close> (the rotation matrix of one quaternion) is declared in a header
  that is missing and is a parameter. \<open>N\<close> is the number of children of a primitive.
\<close>

definition densify_and_split ::
  "(nat \<Rightarrow> nat \<Rightarrow> fl) \<Rightarrow> (fl list \<Rightarrow> fl list list) \<Rightarrow> fl list \<Rightarrow> fl \<Rightarrow> fl \<Rightarrow> nat \<Rightarrow>
   gaussian_model \<Rightarrow> error option \<times> gaussian_model" where
  "densify_and_split randn build_rotation grads grad_threshold scene_extent N m =
     try_with (split_selected_pts_mask grads grad_threshold scene_extent m) m (\<lambda>selected_pts_mask.
     let sel = nonzero selected_pts_mask in
     try_with (index_select (Get_scaling m) sel) m (\<lambda>sc.
     let stds = repeat_rows N sc;
         samples = map (\<lambda>i. map (\<lambda>j. fadd (fmul (randn i j) (stds ! i ! j)) (Fin 0))
                                 [0..<length (stds ! i)]) [0..<length stds]
     in
     try_with (index_select (rows (rotation m)) sel) m (\<lambda>rq.
     let rots = repeat_rows N (map build_rotation rq) in
     try_with (index_select (rows (xyz m)) sel) m (\<lambda>px.
     let new_xyz = map2 (map2 fadd) (map2 mat_vec rots samples) (repeat_rows N px);
         new_scaling = map (map (\<lambda>s. flog (fdiv s (Fin (0.8 * real N))))) (repeat_rows N sc);
         new_rotation = repeat_rows N rq
     in
     try_with (index_select (rows (features_dc m)) sel) m (\<lambda>fd.
     try_with (index_select (rows (features_rest m)) sel) m (\<lambda>fr.
     try_with (index_select (rows (opacity m)) sel) m (\<lambda>op.
       and_then
         (densification_postfix new_xyz (repeat_rows N fd) (repeat_rows N fr) new_scaling
            new_rotation (repeat_rows N op))
         (prune_points (selected_pts_mask @ replicate (N * length sel) False)) m)))))))"

subsection \<open>densify_and_clone\<close>

text \<open>
  \<open>grads\<close> has shape \<open>[N, 1]\<close>, one number per primitive. \<^verbatim>\<open>grads.norm()\<close> is one number,
  the norm of the whole tensor, and \<^verbatim>\<open>torch::where\<close> spreads the one comparison over a
  mask of the shape of \<open>grads\<close>.
\<close>

definition densify_and_clone ::
  "fl list \<Rightarrow> fl \<Rightarrow> fl \<Rightarrow> gaussian_model \<Rightarrow> error option \<times> gaussian_model" where
  "densify_and_clone grads grad_threshold scene_extent m =
     (let cond = fge (norm2 grads) grad_threshold in
      try_with (max_dim1 (Get_scaling m)) m (\<lambda>smax.
      try_with (broadcast2 (\<and>) (map (\<lambda>_. cond) grads)
                  (map (\<lambda>s. fle s (fmul (percent_dense m) scene_extent)) smax)) m (\<lambda>selected_pts_mask.
      let indices = nonzero selected_pts_mask in
      try_with (index_select (rows (xyz m)) indices) m (\<lambda>new_xyz.
      try_with (index_select (rows (features_dc m)) indices) m (\<lambda>new_features_dc.
      try_with (index_select (rows (features_rest m)) indices) m (\<lambda>new_features_rest.
      try_with (index_select (rows (opacity m)) indices) m (\<lambda>new_opacity.
      try_with (index_select (rows (scaling m)) indices) m (\<lambda>new_scaling.
      try_with (index_select (rows (rotation m)) indices) m (\<lambda>new_rotation.
        densification_postfix new_xyz new_features_dc new_features_rest new_scaling new_rotation
          new_opacity m)))))))))"

subsection \<open>Densify_and_prune\<close>

text \<open>The first two statements: the mean gradient, every NaN overwritten with 0.\<close>

definition mean_grads :: "gaussian_model \<Rightarrow> error + fl list" where
  "mean_grads m =
     (case broadcast2 fdiv (xyz_gradient_accum m) (denom m) of
        Inl e \<Rightarrow> Inl e
      | Inr grads \<Rightarrow> Inr (map (\<lambda>g. if isnan g then Fin 0 else g) grads))"

text \<open>
  The mask of the closing prune. \<^verbatim>\<open>squeeze()\<close> turns the opacity column of a single
  primitive into a tensor without dimensions; unless the screen-size branch broadcasts
  it back to one dimension, \<open>prune_points\<close> gets an index tensor of two dimensions from
  \<^verbatim>\<open>nonzero\<close> and \<^verbatim>\<open>index_select\<close> raises.
\<close>

definition final_prune ::
  "fl \<Rightarrow> fl \<Rightarrow> fl \<Rightarrow> gaussian_model \<Rightarrow> error option \<times> gaussian_model" where
  "final_prune min_opacity extent max_screen_size m =
     (let prune_mask = concat (map (map (\<lambda>a. flt a min_opacity)) (Get_opacity m)) in
      if fgt max_screen_size (Fin 0) then
        try_with (max_dim1 (Get_scaling m)) m (\<lambda>smax.
        try_with (broadcast2 (\<or>) (map (\<lambda>r. fgt r max_screen_size) (max_radii2D m))
                    (map (\<lambda>s. fgt s (fmul (Fin (1 / 10)) extent)) smax)) m (\<lambda>big.
        try_with (broadcast2 (\<or>) prune_mask big) m (\<lambda>prune_mask'.
          prune_points prune_mask' m)))
      else if length prune_mask = 1 then (Some IndexError, m)
      else prune_points prune_mask m)"

text \<open>
  Modelled from the spec: the default of the last argument of \<open>densify_and_split\<close> is
  declared in the missing header; the spec splits a primitive into 2.
\<close>

definition Densify_and_prune ::
  "(nat \<Rightarrow> nat \<Rightarrow> fl) \<Rightarrow> (fl list \<Rightarrow> fl list list) \<Rightarrow> fl \<Rightarrow> fl \<Rightarrow> fl \<Rightarrow> fl \<Rightarrow>
   gaussian_model \<Rightarrow> error option \<times> gaussian_model" where
  "Densify_and_prune randn build_rotation max_grad min_opacity extent max_screen_size m =
     try_with (mean_grads m) m (\<lambda>grads.
       and_then (densify_and_clone grads max_grad extent)
      (and_then (densify_and_split randn build_rotation grads max_grad extent 2)
                (final_prune min_opacity extent max_screen_size)) m)"

subsection \<open>Add_densification_stats\<close>

definition Add_densification_stats ::
  "tensor \<Rightarrow> bool list \<Rightarrow> gaussian_model \<Rightarrow> error option \<times> gaussian_model" where
  "Add_densification_stats viewspace_point_tensor update_filter m =
     (let idx = nonzero update_filter in
      try_with (index_select (xyz_gradient_accum m) idx) m (\<lambda>acc.
      try_with (case grad viewspace_point_tensor of
                  None \<Rightarrow> Inl UndefinedTensor
                | Some g \<Rightarrow> index_select g idx) m (\<lambda>vg.
      if length update_filter \<noteq> length (xyz_gradient_accum m) then (Some IndexError, m)
      else
        let m1 = m\<lparr>xyz_gradient_accum :=
                     index_put_mask (xyz_gradient_accum m) update_filter
                       (map2 fadd acc (map (\<lambda>r. norm2 (take 2 r)) vg))\<rparr>
        in
        try_with (index_select (denom m1) idx) m1 (\<lambda>den.
        if length update_filter \<noteq> length (denom m1) then (Some IndexError, m1)
        else (None, m1\<lparr>denom := index_put_mask (denom m1) update_filter
                                   (map (\<lambda>d. fadd d (Fin 1)) den)\<rparr>)))))"

section \<open>Views of the state and example states\<close>

text \<open>The rows of the six optimizable buffers, in the order of the optimizer's groups.\<close>

definition param_rows :: "gaussian_model \<Rightarrow> fl list list list" where
  "param_rows m = [rows (xyz m), rows (features_dc m), rows (features_rest m),
                   rows (scaling m), rows (rotation m), rows (opacity m)]"

text \<open>The three bookkeeping buffers.\<close>

definition stats :: "gaussian_model \<Rightarrow> fl list list" where
  "stats m = [xyz_gradient_accum m, denom m, max_radii2D m]"

text \<open>
  The examples are models as they stand after \<^verbatim>\<open>Training_setup\<close>, one backward pass
  and one step of the optimizer: every group holds its buffer, every gradient is defined
  and Adam holds a state for each of the six parameters.
\<close>

definition example_param :: "nat \<Rightarrow> fl list list \<Rightarrow> tensor" where
  "example_param a rs = \<lparr>impl = a, rows = rs, grad = Some (zeros_like rs)\<rparr>"

definition example_adam_state :: "fl list list \<Rightarrow> adam_param_state" where
  "example_adam_state rs = \<lparr>step = 1, exp_avg = zeros_like rs, exp_avg_sq = zeros_like rs\<rparr>"

definition example_model_of ::
  "fl list list \<Rightarrow> fl list list \<Rightarrow> fl list list \<Rightarrow> fl list list \<Rightarrow> fl list list \<Rightarrow> fl list list \<Rightarrow>
   fl list \<Rightarrow> fl list \<Rightarrow> gaussian_model" where
  "example_model_of x fd fr sc ro op acc den =
     \<lparr>xyz = example_param 0 x, features_dc = example_param 1 fd,
      features_rest = example_param 2 fr, scaling = example_param 3 sc,
      rotation = example_param 4 ro, opacity = example_param 5 op,
      max_radii2D = map (\<lambda>_. Fin 0) x, xyz_gradient_accum = acc, denom = den,
      percent_dense = Fin (1 / 100),
      optimizer =
        \<lparr>param_groups = [[example_param 0 x], [example_param 1 fd], [example_param 2 fr],
                         [example_param 3 sc], [example_param 4 ro], [example_param 5 op]],
         state = map_of [(0, example_adam_state x), (1, example_adam_state fd),
                         (2, example_adam_state fr), (3, example_adam_state sc),
                         (4, example_adam_state ro), (5, example_adam_state op)]\<rparr>,
      next_impl = 6\<rparr>"

text \<open>Two primitives of scale 1 and opacity 0.5; the first was never seen by a camera.\<close>

definition example_model :: gaussian_model where
  "example_model =
     example_model_of [[Fin 0, Fin 0, Fin 0], [Fin 1, Fin 0, Fin 0]]
       [[Fin 1, Fin 1, Fin 1], [Fin 2, Fin 2, Fin 2]] [[], []]
       [[Fin 0, Fin 0, Fin 0], [Fin 0, Fin 0, Fin 0]]
       [[Fin 1, Fin 0, Fin 0, Fin 0], [Fin 1, Fin 0, Fin 0, Fin 0]]
       [[Fin 0], [Fin 0]] [Fin 0, Fin 3] [Fin 0, Fin 2]"

text \<open>The same model with the gradient of the third parameter undefined.\<close>

definition example_no_grad :: gaussian_model where
  "example_no_grad =
     example_model\<lparr>optimizer := (optimizer example_model)
       \<lparr>param_groups := (param_groups (optimizer example_model))
          [2 := [\<lparr>impl = 2, rows = [[], []], grad = None\<rparr>]]\<rparr>\<rparr>"

text \<open>The two primitives after some steps of the optimizer: the opacity has momentum.\<close>

definition example_trained :: gaussian_model where
  "example_trained =
     example_model\<lparr>optimizer := (optimizer example_model)
       \<lparr>state := (state (optimizer example_model))
          (5 := Some \<lparr>step = 3, exp_avg = [[Fin 1], [Fin 2]], exp_avg_sq = [[Fin 1], [Fin 4]]\<rparr>)\<rparr>\<rparr>"

text \<open>A single primitive of scale 1.\<close>

definition example_single :: gaussian_model where
  "example_single =
     example_model_of [[Fin 5, Fin 6, Fin 7]] [[Fin 1, Fin 1, Fin 1]] [[]]
       [[Fin 0, Fin 0, Fin 0]] [[Fin 1, Fin 0, Fin 0, Fin 0]] [[Fin 0]] [Fin 1] [Fin 1]"

text \<open>The screen-space points of one rendering, with their gradient.\<close>

definition example_viewspace :: tensor where
  "example_viewspace =
     \<lparr>impl = 9, rows = [[Fin 0, Fin 0, Fin 0], [Fin 0, Fin 0, Fin 0]],
      grad = Some [[Fin 3, Fin 4, Fin 7], [Fin 1, Fin 1, Fin 1]]\<rparr>"

lemmas example_defs =
  example_model_def example_no_grad_def example_trained_def example_single_def
  example_model_of_def
  example_param_def example_adam_state_def example_viewspace_def zeros_like_def

section \<open>Auxiliary facts\<close>

lemma and_then_None:
  "and_then f g m = (None, m') \<longleftrightarrow> (\<exists>m1. f m = (None, m1) \<and> g m1 = (None, m'))"
  by (auto simp: and_then_def split: prod.splits option.splits)

lemma try_with_None:
  "try_with r m k = (None, m') \<longleftrightarrow> (\<exists>v. r = Inr v \<and> k v = (None, m'))"
  by (auto simp: try_with_def split: sum.splits)

lemma index_select_Inr:
  "index_select xs idx = Inr ys \<Longrightarrow> ys = map (\<lambda>i. xs ! i) idx"
  by (auto simp: index_select_def split: if_splits)

lemma set_param_state: "set_param opt pos t = Inr opt' \<Longrightarrow> state opt' = state opt"
  by (auto simp: set_param_def split: if_splits)

subsection \<open>Evaluation\<close>

lemma nonzero_Nil: "nonzero [] = []"
  by (simp add: nonzero_def)

lemma nonzero_Cons: "nonzero (b # bs) = (if b then [0] else []) @ map Suc (nonzero bs)"
proof -
  have "[0..<length (b # bs)] = 0 # map Suc [0..<length bs]"
    by (simp add: upt_conv_Cons map_Suc_upt del: upt_Suc)
  then show ?thesis
    by (simp add: nonzero_def filter_map comp_def del: upt_Suc)
qed

lemmas eval_defs =
  nonzero_Nil nonzero_Cons index_select_def set_param_def try_with_def and_then_def
  prune_points_def prune_member_def prune_optimizer_def prune_stats_def
  densification_postfix_def cat_member_def cat_tensors_to_optimizer_def reset_stats_def
  size0_def Get_scaling_def Get_opacity_def max_dim1_def broadcast2_def norm2_def
  fge_def fgt_def flt_def fmax_def isnan_def Let_def

lemma sqrt_25: "sqrt 25 = (5::real)"
  by (rule real_sqrt_unique) simp_all

lemma norm2_3_4: "norm2 [Fin 3, Fin 4] = Fin 5"
  by (simp add: norm2_def sqrt_25)

subsection \<open>prune_points\<close>

lemma prune_member_None:
  assumes "prune_member idx member member_update pos m = (None, m')"
  shows "\<exists>opt'. m' = (member_update (\<lambda>_. \<lparr>impl = next_impl m, rows = map ((!) (rows (member m))) idx, grad = None\<rparr>) m)
                       \<lparr>optimizer := opt', next_impl := Suc (next_impl m)\<rparr> \<and>
               state opt' = state (optimizer m)"
proof -
  from assms obtain t opt' where
    p: "prune_optimizer (optimizer m) idx (member m) pos (next_impl m) = Inr (t, opt')" and
    m': "m' = (member_update (\<lambda>_. t) m)\<lparr>optimizer := opt', next_impl := Suc (next_impl m)\<rparr>"
    by (auto simp: prune_member_def split: sum.splits prod.splits)
  from p have "t = \<lparr>impl = next_impl m, rows = map ((!) (rows (member m))) idx, grad = None\<rparr>"
    and "state opt' = state (optimizer m)"
    by (auto simp: prune_optimizer_def Let_def dest!: index_select_Inr set_param_state
          split: sum.splits)
  with m' show ?thesis by blast
qed

lemma prune_xyz:
  "prune_member idx xyz xyz_update pos m = (None, m') \<Longrightarrow>
   param_rows m' = (param_rows m)[0 := map ((!) (param_rows m ! 0)) idx] \<and> stats m' = stats m \<and>
   percent_dense m' = percent_dense m \<and> state (optimizer m') = state (optimizer m)"
  by (drule prune_member_None) (auto simp: param_rows_def stats_def)

lemma prune_features_dc:
  "prune_member idx features_dc features_dc_update pos m = (None, m') \<Longrightarrow>
   param_rows m' = (param_rows m)[1 := map ((!) (param_rows m ! 1)) idx] \<and> stats m' = stats m \<and>
   percent_dense m' = percent_dense m \<and> state (optimizer m') = state (optimizer m)"
  by (drule prune_member_None) (auto simp: param_rows_def stats_def)

lemma prune_features_rest:
  "prune_member idx features_rest features_rest_update pos m = (None, m') \<Longrightarrow>
   param_rows m' = (param_rows m)[2 := map ((!) (param_rows m ! 2)) idx] \<and> stats m' = stats m \<and>
   percent_dense m' = percent_dense m \<and> state (optimizer m') = state (optimizer m)"
  by (drule prune_member_None) (auto simp: param_rows_def stats_def)

lemma prune_scaling:
  "prune_member idx scaling scaling_update pos m = (None, m') \<Longrightarrow>
   param_rows m' = (param_rows m)[3 := map ((!) (param_rows m ! 3)) idx] \<and> stats m' = stats m \<and>
   percent_dense m' = percent_dense m \<and> state (optimizer m') = state (optimizer m)"
  by (drule prune_member_None) (auto simp: param_rows_def stats_def)

lemma prune_rotation:
  "prune_member idx rotation rotation_update pos m = (None, m') \<Longrightarrow>
   param_rows m' = (param_rows m)[4 := map ((!) (param_rows m ! 4)) idx] \<and> stats m' = stats m \<and>
   percent_dense m' = percent_dense m \<and> state (optimizer m') = state (optimizer m)"
  by (drule prune_member_None) (auto simp: param_rows_def stats_def)

lemma prune_opacity:
  "prune_member idx opacity opacity_update pos m = (None, m') \<Longrightarrow>
   param_rows m' = (param_rows m)[5 := map ((!) (param_rows m ! 5)) idx] \<and> stats m' = stats m \<and>
   percent_dense m' = percent_dense m \<and> state (optimizer m') = state (optimizer m)"
  by (drule prune_member_None) (auto simp: param_rows_def stats_def)

lemma prune_stats_None:
  assumes "prune_stats msk m = (None, m')"
  shows "stats m' = map (\<lambda>b. map ((!) b) (nonzero (map Not msk))) (stats m) \<and>
         param_rows m' = param_rows m \<and> percent_dense m' = percent_dense m \<and>
         state (optimizer m') = state (optimizer m)"
  using assms
  by (auto simp: prune_stats_def Let_def try_with_None stats_def param_rows_def dest!: index_select_Inr)

lemma six_updates:
  "length xs = 6 \<Longrightarrow> xs[0 := f (xs ! 0), 1 := f (xs ! 1), 2 := f (xs ! 2), 3 := f (xs ! 3), 4 := f (xs ! 4), 5 := f (xs ! 5)] = map f xs"
  by (auto simp: numeral_eq_Suc length_Suc_conv)

lemma prune_points_None:
  assumes "prune_points msk m = (None, m')"
  shows "param_rows m' = map (\<lambda>b. map ((!) b) (nonzero msk)) (param_rows m) \<and>
         stats m' = map (\<lambda>b. map ((!) b) (nonzero (map Not msk))) (stats m) \<and>
         percent_dense m' = percent_dense m \<and>
         state (optimizer m') = state (optimizer m)"
proof -
  from assms obtain m1 m2 m3 m4 m5 m6 where
    s1: "prune_member (nonzero msk) xyz xyz_update 0 m = (None, m1)" and
    s2: "prune_member (nonzero msk) features_dc features_dc_update 1 m1 = (None, m2)" and
    s3: "prune_member (nonzero msk) features_rest features_rest_update 2 m2 = (None, m3)" and
    s4: "prune_member (nonzero msk) scaling scaling_update 3 m3 = (None, m4)" and
    s5: "prune_member (nonzero msk) rotation rotation_update 4 m4 = (None, m5)" and
    s6: "prune_member (nonzero msk) opacity opacity_update 5 m5 = (None, m6)" and
    s7: "prune_stats msk m6 = (None, m')"
    unfolding prune_points_def Let_def and_then_None by blast
  have len: "length (param_rows m) = 6" by (simp add: param_rows_def)
  note f = prune_xyz[OF s1] prune_features_dc[OF s2] prune_features_rest[OF s3]
    prune_scaling[OF s4] prune_rotation[OF s5] prune_opacity[OF s6] prune_stats_None[OF s7]
  have "param_rows m' = (param_rows m)[0 := map ((!) (param_rows m ! 0)) (nonzero msk),
       1 := map ((!) (param_rows m ! 1)) (nonzero msk), 2 := map ((!) (param_rows m ! 2)) (nonzero msk),
       3 := map ((!) (param_rows m ! 3)) (nonzero msk), 4 := map ((!) (param_rows m ! 4)) (nonzero msk),
       5 := map ((!) (param_rows m ! 5)) (nonzero msk)]"
    using f len by simp
  then have "param_rows m' = map (\<lambda>b. map ((!) b) (nonzero msk)) (param_rows m)"
    using six_updates[OF len, of "\<lambda>b. map ((!) b) (nonzero msk)"] by simp
  with f show ?thesis by simp
qed

subsection \<open>densification_postfix\<close>

lemma cat_member_None:
  assumes "cat_member ext member member_update nm pos m = (None, m')"
  shows "\<exists>opt'. m' = (member_update (\<lambda>_. \<lparr>impl = next_impl m, rows = rows (member m) @ ext, grad = None\<rparr>) m)
                       \<lparr>optimizer := opt', next_impl := Suc (next_impl m)\<rparr> \<and>
               state opt' = state (optimizer m)"
proof -
  from assms obtain t opt' where
    p: "cat_tensors_to_optimizer (optimizer m) ext (member m) nm pos (next_impl m) = Inr (t, opt')" and
    m': "m' = (member_update (\<lambda>_. t) m)\<lparr>optimizer := opt', next_impl := Suc (next_impl m)\<rparr>"
    by (auto simp: cat_member_def split: sum.splits prod.splits)
  from p have "t = \<lparr>impl = next_impl m, rows = rows (member m) @ ext, grad = None\<rparr>"
    and "state opt' = state (optimizer m)"
    by (auto simp: cat_tensors_to_optimizer_def Let_def dest!: set_param_state split: sum.splits)
  with m' show ?thesis by blast
qed

lemma cat_xyz:
  "cat_member ext xyz xyz_update nm pos m = (None, m') \<Longrightarrow>
   param_rows m' = (param_rows m)[0 := param_rows m ! 0 @ ext] \<and> stats m' = stats m \<and>
   percent_dense m' = percent_dense m \<and> state (optimizer m') = state (optimizer m)"
  by (drule cat_member_None) (auto simp: param_rows_def stats_def)

lemma cat_features_dc:
  "cat_member ext features_dc features_dc_update nm pos m = (None, m') \<Longrightarrow>
   param_rows m' = (param_rows m)[1 := param_rows m ! 1 @ ext] \<and> stats m' = stats m \<and>
   percent_dense m' = percent_dense m \<and> state (optimizer m') = state (optimizer m)"
  by (drule cat_member_None) (auto simp: param_rows_def stats_def)

lemma cat_features_rest:
  "cat_member ext features_rest features_rest_update nm pos m = (None, m') \<Longrightarrow>
   param_rows m' = (param_rows m)[2 := param_rows m ! 2 @ ext] \<and> stats m' = stats m \<and>
   percent_dense m' = percent_dense m \<and> state (optimizer m') = state (optimizer m)"
  by (drule cat_member_None) (auto simp: param_rows_def stats_def)

lemma cat_scaling:
  "cat_member ext scaling scaling_update nm pos m = (None, m') \<Longrightarrow>
   param_rows m' = (param_rows m)[3 := param_rows m ! 3 @ ext] \<and> stats m' = stats m \<and>
   percent_dense m' = percent_dense m \<and> state (optimizer m') = state (optimizer m)"
  by (drule cat_member_None) (auto simp: param_rows_def stats_def)

lemma cat_rotation:
  "cat_member ext rotation rotation_update nm pos m = (None, m') \<Longrightarrow>
   param_rows m' = (param_rows m)[4 := param_rows m ! 4 @ ext] \<and> stats m' = stats m \<and>
   percent_dense m' = percent_dense m \<and> state (optimizer m') = state (optimizer m)"
  by (drule cat_member_None) (auto simp: param_rows_def stats_def)

lemma cat_opacity:
  "cat_member ext opacity opacity_update nm pos m = (None, m') \<Longrightarrow>
   param_rows m' = (param_rows m)[5 := param_rows m ! 5 @ ext] \<and> stats m' = stats m \<and>
   percent_dense m' = percent_dense m \<and> state (optimizer m') = state (optimizer m)"
  by (drule cat_member_None) (auto simp: param_rows_def stats_def)

lemma reset_stats_None:
  "reset_stats m = (None, m') \<Longrightarrow>
   param_rows m' = param_rows m \<and> stats m' = replicate 3 (replicate (length (param_rows m ! 0)) (Fin 0)) \<and>
   percent_dense m' = percent_dense m \<and> state (optimizer m') = state (optimizer m)"
  by (auto simp: reset_stats_def param_rows_def stats_def size0_def numeral_eq_Suc)

lemma six_appends:
  "length xs = 6 \<Longrightarrow>
   xs[0 := xs ! 0 @ a0, 1 := xs ! 1 @ a1, 2 := xs ! 2 @ a2, 3 := xs ! 3 @ a3, 4 := xs ! 4 @ a4,
      5 := xs ! 5 @ a5] = map2 (@) xs [a0, a1, a2, a3, a4, a5]"
  by (auto simp: numeral_eq_Suc length_Suc_conv)

lemma densification_postfix_None:
  assumes "densification_postfix nx nfd nfr nsc nro nop m = (None, m')"
  shows "param_rows m' = map2 (@) (param_rows m) [nx, nfd, nfr, nsc, nro, nop] \<and>
         stats m' = replicate 3 (replicate (size0 (xyz m) + length nx) (Fin 0)) \<and>
         percent_dense m' = percent_dense m \<and>
         state (optimizer m') = state (optimizer m)"
proof -
  from assms have
    "and_then (cat_member nx xyz xyz_update ''xyz'' 0)
    (and_then (cat_member nfd features_dc features_dc_update ''features_dc'' 1)
    (and_then (cat_member nfr features_rest features_rest_update ''features_rest'' 2)
    (and_then (cat_member nsc scaling scaling_update ''scaling'' 3)
    (and_then (cat_member nro rotation rotation_update ''rotation'' 4)
    (and_then (cat_member nop opacity opacity_update ''opacity'' 5)
              reset_stats))))) m = (None, m')"
    by (simp add: densification_postfix_def split: if_splits option.splits)
  then obtain m1 m2 m3 m4 m5 m6 where
    s1: "cat_member nx xyz xyz_update ''xyz'' 0 m = (None, m1)" and
    s2: "cat_member nfd features_dc features_dc_update ''features_dc'' 1 m1 = (None, m2)" and
    s3: "cat_member nfr features_rest features_rest_update ''features_rest'' 2 m2 = (None, m3)" and
    s4: "cat_member nsc scaling scaling_update ''scaling'' 3 m3 = (None, m4)" and
    s5: "cat_member nro rotation rotation_update ''rotation'' 4 m4 = (None, m5)" and
    s6: "cat_member nop opacity opacity_update ''opacity'' 5 m5 = (None, m6)" and
    s7: "reset_stats m6 = (None, m')"
    unfolding and_then_None by blast
  have len: "length (param_rows m) = 6" by (simp add: param_rows_def)
  note f = cat_xyz[OF s1] cat_features_dc[OF s2] cat_features_rest[OF s3]
    cat_scaling[OF s4] cat_rotation[OF s5] cat_opacity[OF s6] reset_stats_None[OF s7]
  have "param_rows m' = (param_rows m)[0 := param_rows m ! 0 @ nx, 1 := param_rows m ! 1 @ nfd,
       2 := param_rows m ! 2 @ nfr, 3 := param_rows m ! 3 @ nsc, 4 := param_rows m ! 4 @ nro,
       5 := param_rows m ! 5 @ nop]"
    using f len by simp
  then have p: "param_rows m' = map2 (@) (param_rows m) [nx, nfd, nfr, nsc, nro, nop]"
    using six_appends[OF len] by simp
  have "length (param_rows m6 ! 0) = size0 (xyz m) + length nx"
    using f len by (simp add: param_rows_def size0_def)
  with p f show ?thesis by simp
qed

subsection \<open>densify_and_split\<close>

lemma max_dim1_length: "max_dim1 rs = Inr v \<Longrightarrow> length v = length rs"
  by (auto simp: max_dim1_def split: if_splits)

lemma padded_grad_Inr:
  assumes "padded_grad n grads = Inr pg"
  shows "length pg = n \<and> (\<forall>i. length grads \<le> i \<and> i < n \<longrightarrow> pg ! i = Fin 0) \<and>
         (\<forall>i. i < length grads \<and> i < n \<longrightarrow> pg ! i = grads ! i)"
  using assms by (auto simp: padded_grad_def nth_append split: if_splits)

subsection \<open>Densify_and_prune\<close>

lemma fmul_self_cases: "x \<noteq> NaN \<Longrightarrow> (\<exists>a\<ge>0. fmul x x = Fin a) \<or> fmul x x = PInf"
  by (cases x) (auto simp: inf_of_def)

lemma fadd_nonneg:
  "(\<exists>a\<ge>0. x = Fin a) \<or> x = PInf \<Longrightarrow> (\<exists>a\<ge>0. y = Fin a) \<or> y = PInf \<Longrightarrow>
   (\<exists>a\<ge>0. fadd x y = Fin a) \<or> fadd x y = PInf"
  by auto

lemma sum_squares_nonneg:
  "\<forall>x\<in>set xs. x \<noteq> NaN \<Longrightarrow>
   (\<exists>a\<ge>0. foldr fadd (map (\<lambda>x. fmul x x) xs) (Fin 0) = Fin a) \<or>
   foldr fadd (map (\<lambda>x. fmul x x) xs) (Fin 0) = PInf"
proof (induction xs)
  case Nil
  then show ?case by simp
next
  case (Cons x xs)
  then have "x \<noteq> NaN" and "\<forall>x\<in>set xs. x \<noteq> NaN" by simp_all
  from fadd_nonneg[OF fmul_self_cases[OF this(1)] Cons.IH[OF this(2)]]
  show ?case by simp
qed

lemma norm2_not_nan: "\<forall>x\<in>set xs. \<not> isnan x \<Longrightarrow> \<not> isnan (norm2 xs)"
  using sum_squares_nonneg[of xs] by (auto simp: norm2_def isnan_def)

subsection \<open>Add_densification_stats\<close>

lemma nonzero_bound: "list_all (\<lambda>i. i < length bs) (nonzero bs)"
  by (simp add: nonzero_def list_all_iff)

lemma index_select_nonzero:
  "length bs \<le> length xs \<Longrightarrow> index_select xs (nonzero bs) = Inr (map ((!) xs) (nonzero bs))"
  using nonzero_bound[of bs] by (auto simp: index_select_def list_all_iff)

lemma index_put_mask_length: "length (index_put_mask xs bs vs) = length xs"
  by (induction xs bs vs rule: index_put_mask.induct) (auto split: list.splits)

lemma index_put_mask_nonzero:
  "length bs = length xs \<Longrightarrow>
   index_put_mask xs bs (map g (nonzero bs)) = map (\<lambda>i. if bs ! i then g i else xs ! i) [0..<length xs]"
proof (induction xs arbitrary: bs g)
  case Nil
  then show ?case by simp
next
  case (Cons x xs)
  then obtain b bs' where bs: "bs = b # bs'" and len: "length bs' = length xs"
    by (cases bs) auto
  have up: "[0..<length (x # xs)] = 0 # map Suc [0..<length xs]"
    by (simp add: upt_conv_Cons map_Suc_upt del: upt_Suc)
  show ?case
    unfolding up bs
    using Cons.IH[OF len, of "g \<circ> Suc"]
    by (simp add: nonzero_Cons comp_def)
qed

lemma index_put_mask_false:
  "i < length xs \<Longrightarrow> i < length bs \<Longrightarrow> \<not> bs ! i \<Longrightarrow> index_put_mask xs bs vs ! i = xs ! i"
proof (induction xs bs vs arbitrary: i rule: index_put_mask.induct)
  case (1 x xs b bs vs)
  then show ?case by (cases i) (auto split: list.splits)
qed simp_all

lemma map2_map_map: "map2 f (map a xs) (map b xs) = map (\<lambda>x. f (a x) (b x)) xs"
  by (induction xs) auto

subsection \<open>Reset_opacity\<close>

lemma check_groups_invalid:
  "list_ex (\<lambda>g. length g \<noteq> 1 \<or> \<not> grad_defined (g ! 0)) gs \<Longrightarrow> i + length gs \<le> length mapping \<Longrightarrow>
   \<exists>msg. check_groups gs i = Some (RuntimeError msg)"
  by (induction gs arbitrary: i) auto

section \<open>Row counts across the structural mutations\<close>

text \<open>
  C1. After a structural mutation the six optimizable buffers, the three bookkeeping
  buffers and Adam's momentum and variance should all have one row count. After the
  clone below the nine buffers have four rows, while the momentum and the variance that
  Adam holds for the position parameter still have two and no state is filed under the
  address of the new position tensor. After \<open>prune_points\<close> with a mask that removes
  nothing, the optimizable buffers have no row, the bookkeeping buffers have two and
  Adam's buffers have two.
\<close>

theorem mutations_break_row_counts:
  "fst (densify_and_clone [Fin 1, Fin 0] (Fin (1 / 2)) (Fin 1000) example_model) = None \<and>
   map length (param_rows (snd (densify_and_clone [Fin 1, Fin 0] (Fin (1 / 2)) (Fin 1000) example_model))) =
     [4, 4, 4, 4, 4, 4] \<and>
   map length (stats (snd (densify_and_clone [Fin 1, Fin 0] (Fin (1 / 2)) (Fin 1000) example_model))) =
     [4, 4, 4] \<and>
   map_option (length \<circ> exp_avg)
     (state (optimizer (snd (densify_and_clone [Fin 1, Fin 0] (Fin (1 / 2)) (Fin 1000) example_model))) 0) =
     Some 2 \<and>
   map_option (length \<circ> exp_avg_sq)
     (state (optimizer (snd (densify_and_clone [Fin 1, Fin 0] (Fin (1 / 2)) (Fin 1000) example_model))) 0) =
     Some 2 \<and>
   state (optimizer (snd (densify_and_clone [Fin 1, Fin 0] (Fin (1 / 2)) (Fin 1000) example_model)))
     (impl (xyz (snd (densify_and_clone [Fin 1, Fin 0] (Fin (1 / 2)) (Fin 1000) example_model)))) = None \<and>
   fst (prune_points [False, False] example_model) = None \<and>
   map length (param_rows (snd (prune_points [False, False] example_model))) = [0, 0, 0, 0, 0, 0] \<and>
   map length (stats (snd (prune_points [False, False] example_model))) = [2, 2, 2] \<and>
   map_option (length \<circ> exp_avg) (state (optimizer (snd (prune_points [False, False] example_model))) 0) =
     Some 2"
  by (simp add: densify_and_clone_def eval_defs example_defs param_rows_def stats_def)


section \<open>Pruning\<close>

text \<open>
  C2. \<open>prune_points\<close> with the mask (true, false) on two primitives should keep the
  second primitive in all nine buffers. The three bookkeeping buffers keep the second;
  the optimizable buffers keep the first, the one the mask marks for removal.
\<close>

theorem prune_points_keeps_masked_rows:
  "fst (prune_points [True, False] example_model) = None \<and>
   rows (xyz (snd (prune_points [True, False] example_model))) = [[Fin 0, Fin 0, Fin 0]] \<and>
   rows (features_dc (snd (prune_points [True, False] example_model))) = [[Fin 1, Fin 1, Fin 1]] \<and>
   xyz_gradient_accum (snd (prune_points [True, False] example_model)) = [Fin 3] \<and>
   denom (snd (prune_points [True, False] example_model)) = [Fin 2]"
  by (simp add: eval_defs example_defs)

section \<open>Cloning\<close>

text \<open>
  C3. \<open>densify_and_clone\<close> on two small primitives with gradients 1 and 0 and threshold
  0.5 should clone only the first. It compares the norm of the whole gradient tensor
  with the threshold, so both primitives are cloned.
\<close>

theorem densify_and_clone_global_norm:
  "fge (norm2 [Fin 1, Fin 0]) (Fin (1 / 2)) \<and> \<not> fge (norm2 [Fin 0]) (Fin (1 / 2)) \<and>
   fst (densify_and_clone [Fin 1, Fin 0] (Fin (1 / 2)) (Fin 1000) example_model) = None \<and>
   rows (xyz (snd (densify_and_clone [Fin 1, Fin 0] (Fin (1 / 2)) (Fin 1000) example_model))) =
     [[Fin 0, Fin 0, Fin 0], [Fin 1, Fin 0, Fin 0], [Fin 0, Fin 0, Fin 0], [Fin 1, Fin 0, Fin 0]]"
  by (simp add: densify_and_clone_def eval_defs example_defs)

section \<open>Splitting\<close>

text \<open>
  C4. \<open>densify_and_split\<close> with two children on a single selected primitive should leave
  the two children and no parent. Whatever noise and rotation, it leaves the parent and
  no child in the optimizable buffers, and two rows in the bookkeeping buffers.
\<close>

theorem densify_and_split_keeps_parent:
  "fst (densify_and_split randn build_rotation [Fin 1] (Fin (1 / 2)) (Fin 10) 2 example_single) = None \<and>
   rows (xyz (snd (densify_and_split randn build_rotation [Fin 1] (Fin (1 / 2)) (Fin 10) 2 example_single))) =
     [[Fin 5, Fin 6, Fin 7]] \<and>
   rows (scaling (snd (densify_and_split randn build_rotation [Fin 1] (Fin (1 / 2)) (Fin 10) 2 example_single))) =
     [[Fin 0, Fin 0, Fin 0]] \<and>
   length (xyz_gradient_accum (snd (densify_and_split randn build_rotation [Fin 1] (Fin (1 / 2)) (Fin 10) 2 example_single))) = 2"
  by (simp add: densify_and_split_def split_selected_pts_mask_def padded_grad_def repeat_rows_def
       eval_defs example_defs numeral_2_eq_2)

text \<open>
  C10. In \<open>densify_and_split\<close> the gradients are padded with zeros up to the number of
  primitives before they are compared with the threshold. On a model whose scale buffer
  has as many rows as its position buffer, a primitive whose index is at or beyond the
  length of the gradient vector has padded gradient 0, and it is selected only if the
  threshold is at most 0.
\<close>

theorem split_padding:
  assumes sel: "split_selected_pts_mask grads grad_threshold scene_extent m = Inr sel"
      and aligned: "size0 (scaling m) = size0 (xyz m)"
  shows "\<exists>pg. padded_grad (size0 (xyz m)) grads = Inr pg \<and> length pg = size0 (xyz m) \<and>
           length sel = size0 (xyz m) \<and>
           (\<forall>i. i < length grads \<and> i < size0 (xyz m) \<longrightarrow> pg ! i = grads ! i) \<and>
           (\<forall>i. length grads \<le> i \<and> i < size0 (xyz m) \<longrightarrow>
                 pg ! i = Fin 0 \<and> (sel ! i \<longrightarrow> fle grad_threshold (Fin 0)))"
proof -
  from sel obtain pg smax where
    pg: "padded_grad (size0 (xyz m)) grads = Inr pg" and
    smax: "max_dim1 (Get_scaling m) = Inr smax" and
    b: "broadcast2 (\<and>) (map (\<lambda>g. fge g grad_threshold) pg)
          (map (\<lambda>s. fgt s (fmul (percent_dense m) scene_extent)) smax) = Inr sel"
    by (auto simp: split_selected_pts_mask_def split: sum.splits)
  note p = padded_grad_Inr[OF pg]
  have len: "length smax = length pg"
    using max_dim1_length[OF smax] aligned p by (simp add: Get_scaling_def size0_def)
  with b have s: "sel = map2 (\<and>) (map (\<lambda>g. fge g grad_threshold) pg)
          (map (\<lambda>s. fgt s (fmul (percent_dense m) scene_extent)) smax)"
    by (simp add: broadcast2_def)
  have "\<forall>i. length grads \<le> i \<and> i < size0 (xyz m) \<longrightarrow>
                 pg ! i = Fin 0 \<and> (sel ! i \<longrightarrow> fle grad_threshold (Fin 0))"
    using p len by (auto simp: s fge_def)
  moreover have "length sel = size0 (xyz m)" using p len by (simp add: s)
  ultimately show ?thesis using pg p by blast
qed

theorem split_padding_witness:
  "split_selected_pts_mask [Fin 1] (Fin (- 1)) (Fin 10) example_model = Inr [True, True] \<and>
   size0 (scaling example_model) = size0 (xyz example_model) \<and>
   padded_grad (size0 (xyz example_model)) [Fin 1] = Inr [Fin 1, Fin 0] \<and>
   fle (Fin (- 1)) (Fin 0)"
proof -
  have s: "split_selected_pts_mask [Fin 1] (Fin (- 1)) (Fin 10) example_model = Inr [True, True]"
    by (simp add: split_selected_pts_mask_def padded_grad_def eval_defs example_defs)
  have al: "size0 (scaling example_model) = size0 (xyz example_model)"
    by (simp add: size0_def example_defs)
  have n: "size0 (xyz example_model) = 2" by (simp add: size0_def example_defs)
  have p: "padded_grad (size0 (xyz example_model)) [Fin 1] = Inr [Fin 1, Fin 0]"
    by (simp add: padded_grad_def n)
  from split_padding [OF s al] p n have "fle (Fin (- 1)) (Fin 0)"
    by (auto dest: spec [of _ 1])
  with s al p show ?thesis by simp
qed

section \<open>The mean gradient\<close>

text \<open>
  C5. \<open>Densify_and_prune\<close> starts with the quotient of the gradient accumulator and the
  counter, every NaN of the quotient replaced by 0 and every other entry kept; the
  quotient exists whenever the two buffers have the same number of rows. The gradients
  that \<open>densify_and_clone\<close> and \<open>densify_and_split\<close> then receive are these: they hold
  no NaN, and neither does their norm.
\<close>

theorem mean_grads_nan_free:
  "(length (xyz_gradient_accum m) = length (denom m) \<longrightarrow> (\<exists>grads. mean_grads m = Inr grads)) \<and>
   (mean_grads m = Inr grads \<longrightarrow>
     (\<exists>q. broadcast2 fdiv (xyz_gradient_accum m) (denom m) = Inr q \<and>
              grads = map (\<lambda>g. if isnan g then Fin 0 else g) q) \<and>
     (length (xyz_gradient_accum m) = length (denom m) \<longrightarrow>
            length grads = length (denom m) \<and>
            (\<forall>i<length grads. grads ! i =
               (if isnan (fdiv (xyz_gradient_accum m ! i) (denom m ! i)) then Fin 0
                else fdiv (xyz_gradient_accum m ! i) (denom m ! i)))) \<and>
     (\<forall>g\<in>set grads. \<not> isnan g) \<and> \<not> isnan (norm2 grads) \<and>
     Densify_and_prune randn build_rotation max_grad min_opacity extent max_screen_size m =
           and_then (densify_and_clone grads max_grad extent)
          (and_then (densify_and_split randn build_rotation grads max_grad extent 2)
                    (final_prune min_opacity extent max_screen_size)) m)"
proof (intro conjI impI)
  assume "length (xyz_gradient_accum m) = length (denom m)"
  then show "\<exists>grads. mean_grads m = Inr grads"
    by (simp add: mean_grads_def broadcast2_def)
next
  assume mg: "mean_grads m = Inr grads"
  then obtain q where
    q: "broadcast2 fdiv (xyz_gradient_accum m) (denom m) = Inr q" and
    g: "grads = map (\<lambda>g. if isnan g then Fin 0 else g) q"
    by (auto simp: mean_grads_def split: sum.splits)
  from q g show "\<exists>q. broadcast2 fdiv (xyz_gradient_accum m) (denom m) = Inr q \<and>
              grads = map (\<lambda>g. if isnan g then Fin 0 else g) q" by blast
  from g show nn: "\<forall>g\<in>set grads. \<not> isnan g" by (auto simp: isnan_def)
  from norm2_not_nan[OF nn] show "\<not> isnan (norm2 grads)" .
  from mg show "Densify_and_prune randn build_rotation max_grad min_opacity extent max_screen_size m =
           and_then (densify_and_clone grads max_grad extent)
          (and_then (densify_and_split randn build_rotation grads max_grad extent 2)
                    (final_prune min_opacity extent max_screen_size)) m"
    by (simp add: Densify_and_prune_def try_with_def)
  {
    assume "length (xyz_gradient_accum m) = length (denom m)"
    with q g show "length grads = length (denom m)" by (auto simp: broadcast2_def)
    from \<open>length (xyz_gradient_accum m) = length (denom m)\<close> q g
    show "\<forall>i<length grads. grads ! i =
               (if isnan (fdiv (xyz_gradient_accum m ! i) (denom m ! i)) then Fin 0
                else fdiv (xyz_gradient_accum m ! i) (denom m ! i))"
      by (auto simp: broadcast2_def)
  }
qed

theorem mean_grads_nan_free_witness:
  "length (xyz_gradient_accum example_model) = length (denom example_model) \<and>
   mean_grads example_model = Inr [Fin 0, Fin (3 / 2)] \<and>
   broadcast2 fdiv (xyz_gradient_accum example_model) (denom example_model) = Inr [NaN, Fin (3 / 2)] \<and>
   \<not> isnan (norm2 [Fin 0, Fin (3 / 2)])"
proof -
  have al: "length (xyz_gradient_accum example_model) = length (denom example_model)"
    by (simp add: example_defs)
  have mg: "mean_grads example_model = Inr [Fin 0, Fin (3 / 2)]"
    by (simp add: mean_grads_def broadcast2_def example_defs isnan_def inf_of_def)
  have q: "broadcast2 fdiv (xyz_gradient_accum example_model) (denom example_model) = Inr [NaN, Fin (3 / 2)]"
    by (simp add: broadcast2_def example_defs inf_of_def)
  from mean_grads_nan_free [of example_model "[Fin 0, Fin (3 / 2)]"] al mg q show ?thesis by simp
qed


section \<open>Densification statistics\<close>

text \<open>
  C7. \<open>Add_densification_stats\<close> changes nothing but the gradient accumulator and the
  counter, keeps their lengths, and leaves every entry where the filter is false as it
  was, whether it returns or throws. When it returns normally, every entry where the
  filter is true has grown by the 2-norm of the first two components of the gradient of
  that primitive in the accumulator, and by 1 in the counter. It returns normally when
  the gradient is defined and the filter, the two buffers and the gradient have the same
  number of rows.
\<close>

theorem Add_densification_stats_frame:
  assumes call: "Add_densification_stats viewspace_point_tensor update_filter m = (r, m')"
  shows "m' = m\<lparr>xyz_gradient_accum := xyz_gradient_accum m', denom := denom m'\<rparr> \<and>
         length (xyz_gradient_accum m') = length (xyz_gradient_accum m) \<and>
         length (denom m') = length (denom m) \<and>
         (\<forall>i. i < length update_filter \<and> \<not> update_filter ! i \<longrightarrow>
              xyz_gradient_accum m' ! i = xyz_gradient_accum m ! i \<and> denom m' ! i = denom m ! i) \<and>
         (r = None \<longrightarrow>
            (\<exists>g. grad viewspace_point_tensor = Some g \<and>
              length update_filter = length (xyz_gradient_accum m) \<and>
              length update_filter = length (denom m) \<and>
              (\<forall>i. i < length update_filter \<and> update_filter ! i \<longrightarrow>
                 xyz_gradient_accum m' ! i =
                   fadd (xyz_gradient_accum m ! i) (norm2 (take 2 (g ! i))) \<and>
                 denom m' ! i = fadd (denom m ! i) (Fin 1)))) \<and>
         ((\<exists>g. grad viewspace_point_tensor = Some g \<and> length update_filter \<le> length g) \<and>
          length update_filter = length (xyz_gradient_accum m) \<and>
          length update_filter = length (denom m) \<longrightarrow> r = None)"
proof -
  let ?idx = "nonzero update_filter"
  let ?acc = "xyz_gradient_accum m"
  let ?wf = "(\<exists>g. grad viewspace_point_tensor = Some g \<and> length update_filter \<le> length g) \<and>
          length update_filter = length (xyz_gradient_accum m) \<and>
          length update_filter = length (denom m)"
  show ?thesis
  proof (cases "\<exists>g. index_select ?acc ?idx = Inr (map ((!) ?acc) ?idx) \<and>
       grad viewspace_point_tensor = Some g \<and> index_select g ?idx = Inr (map ((!) g) ?idx) \<and>
       length update_filter = length ?acc")
    case False
    have "\<not> ?wf"
    proof
      assume ?wf
      then obtain g where g: "grad viewspace_point_tensor = Some g" "length update_filter \<le> length g"
        and l: "length update_filter = length ?acc" by blast
      from l have "index_select ?acc ?idx = Inr (map ((!) ?acc) ?idx)"
        by (simp add: index_select_nonzero)
      moreover from g have "index_select g ?idx = Inr (map ((!) g) ?idx)"
        by (simp add: index_select_nonzero)
      ultimately show False using False g l by blast
    qed
    moreover from False have "m' = m \<and> r \<noteq> None"
      using call
      by (auto simp: Add_densification_stats_def Let_def try_with_def
            split: sum.splits option.splits if_splits dest!: index_select_Inr)
    ultimately show ?thesis by auto
  next
    case True
    then obtain g where
      a: "index_select ?acc ?idx = Inr (map ((!) ?acc) ?idx)" and
      g: "grad viewspace_point_tensor = Some g" and
      vg: "index_select g ?idx = Inr (map ((!) g) ?idx)" and
      len: "length update_filter = length ?acc" by blast
    let ?acc' = "map (\<lambda>i. if update_filter ! i then fadd (?acc ! i) (norm2 (take 2 (g ! i))) else ?acc ! i)
                     [0..<length ?acc]"
    have put: "index_put_mask ?acc update_filter
             (map2 fadd (map ((!) ?acc) ?idx) (map (\<lambda>r. norm2 (take 2 r)) (map ((!) g) ?idx))) = ?acc'"
      using index_put_mask_nonzero[OF len, of "\<lambda>i. fadd (?acc ! i) (norm2 (take 2 (g ! i)))"]
      by (simp add: map2_map_map comp_def)
    let ?m1 = "m\<lparr>xyz_gradient_accum := ?acc'\<rparr>"
    let ?den' = "map (\<lambda>i. if update_filter ! i then fadd (denom m ! i) (Fin 1) else denom m ! i)
                     [0..<length (denom m)]"
    have rest: "(r, m') =
       try_with (index_select (denom m) ?idx) ?m1 (\<lambda>den.
        if length update_filter \<noteq> length (denom m) then (Some IndexError, ?m1)
        else (None, ?m1\<lparr>denom := index_put_mask (denom m) update_filter
                                   (map (\<lambda>d. fadd d (Fin 1)) den)\<rparr>))"
      using call a g vg len put
      by (auto simp: Add_densification_stats_def Let_def try_with_def split: sum.splits)
    show ?thesis
    proof (cases "index_select (denom m) ?idx = Inr (map ((!) (denom m)) ?idx) \<and>
                  length update_filter = length (denom m)")
      case False
      then have "\<not> ?wf" by (auto simp: index_select_nonzero)
      moreover from False have "m' = ?m1 \<and> r \<noteq> None"
        using rest by (auto simp: try_with_def split: sum.splits dest!: index_select_Inr)
      ultimately show ?thesis using len by auto
    next
      case True
      then have d: "index_select (denom m) ?idx = Inr (map ((!) (denom m)) ?idx)"
        and dlen: "length update_filter = length (denom m)" by simp_all
      have putd: "index_put_mask (denom m) update_filter
             (map (\<lambda>d. fadd d (Fin 1)) (map ((!) (denom m)) ?idx)) = ?den'"
        using index_put_mask_nonzero[OF dlen, of "\<lambda>i. fadd (denom m ! i) (Fin 1)"]
        by (simp add: comp_def)
      from rest d dlen putd have "r = None" and "m' = ?m1\<lparr>denom := ?den'\<rparr>"
        by (simp_all add: try_with_def)
      then show ?thesis using g len dlen by auto
    qed
  qed
qed

theorem Add_densification_stats_frame_witness:
  "fst (Add_densification_stats example_viewspace [True, False] example_model) = None \<and>
   xyz_gradient_accum (snd (Add_densification_stats example_viewspace [True, False] example_model)) =
     [Fin 5, Fin 3] \<and>
   denom (snd (Add_densification_stats example_viewspace [True, False] example_model)) =
     [Fin 1, Fin 2]"
proof -
  let ?r = "Add_densification_stats example_viewspace [True, False] example_model"
  have f: "fst ?r = None"
    by (simp add: Add_densification_stats_def eval_defs example_defs)
  then have call: "?r = (None, snd ?r)" by (simp add: prod_eq_iff)
  have a: "xyz_gradient_accum example_model = [Fin 0, Fin 3]" "denom example_model = [Fin 0, Fin 2]"
    and g: "grad example_viewspace = Some [[Fin 3, Fin 4, Fin 7], [Fin 1, Fin 1, Fin 1]]"
    by (simp_all add: example_defs)
  note t = Add_densification_stats_frame [OF call]
  from t a have len: "length (xyz_gradient_accum (snd ?r)) = 2" "length (denom (snd ?r)) = 2"
    by simp_all
  from t a g have
    "xyz_gradient_accum (snd ?r) ! 0 = Fin 5" "xyz_gradient_accum (snd ?r) ! 1 = Fin 3"
    "denom (snd ?r) ! 0 = Fin 1" "denom (snd ?r) ! 1 = Fin 2"
    by (auto simp: norm2_3_4)
  with len have "xyz_gradient_accum (snd ?r) = [Fin 5, Fin 3]" "denom (snd ?r) = [Fin 1, Fin 2]"
    by (auto simp: list_eq_iff_nth_eq less_Suc_eq numeral_2_eq_2)
  with f show ?thesis by simp
qed

section \<open>Persistence is not implemented\<close>

text \<open>
  C8. For every file name and every model, \<open>Save_as_ply\<close> throws the runtime error
  "Not implemented" to its caller; it never returns normally, and the model is the one
  it was called on.
\<close>

theorem Save_as_ply_throws:
  "fst (Save_as_ply filename m) = Some (RuntimeError ''Not implemented'') \<and>
   fst (Save_as_ply filename m) \<noteq> None \<and>
   snd (Save_as_ply filename m) = m"
  by (simp add: Save_as_ply_def)

section \<open>Opacity reset\<close>

text \<open>
  C9. \<open>Reset_opacity\<close> checks the parameter groups, six after \<^verbatim>\<open>Training_setup\<close>, before
  it changes anything: when some group does not hold exactly one parameter, or the
  gradient of its parameter is undefined, the call throws a runtime error and the whole
  model, the opacity buffer and Adam's state included, is as it was before the call.
\<close>

theorem Reset_opacity_invalid_group_throws:
  assumes six: "length (param_groups (optimizer m)) \<le> 6"
      and g: "g \<in> set (param_groups (optimizer m))"
      and bad: "length g \<noteq> 1 \<or> \<not> grad_defined (g ! 0)"
  shows "\<exists>msg. Reset_opacity m = (Some (RuntimeError msg), m)"
proof -
  have "list_ex (\<lambda>g. length g \<noteq> 1 \<or> \<not> grad_defined (g ! 0)) (param_groups (optimizer m))"
    using g bad by (auto simp: list_ex_iff)
  moreover have "0 + length (param_groups (optimizer m)) \<le> length mapping"
    using six by (simp add: mapping_def)
  ultimately obtain msg where "check_groups (param_groups (optimizer m)) 0 = Some (RuntimeError msg)"
    using check_groups_invalid by blast
  then show ?thesis by (simp add: Reset_opacity_def)
qed

theorem Reset_opacity_invalid_group_throws_witness:
  "length (param_groups (optimizer example_no_grad)) \<le> 6 \<and>
   param_groups (optimizer example_no_grad) ! 2 \<in> set (param_groups (optimizer example_no_grad)) \<and>
   \<not> grad_defined (param_groups (optimizer example_no_grad) ! 2 ! 0) \<and>
   (\<exists>msg. Reset_opacity example_no_grad = (Some (RuntimeError msg), example_no_grad))"
  using Reset_opacity_invalid_group_throws
          [of example_no_grad "param_groups (optimizer example_no_grad) ! 2"]
  by (simp add: example_defs grad_defined_def)

text \<open>
  C6. After \<open>Reset_opacity\<close> the momentum and the variance of the opacity group should be
  zero tensors of the shape of the new opacity buffer. On a model whose opacity has
  momentum the call returns normally and every stored opacity is the inverse sigmoid of
  0.01, but the opacity group then holds the new tensor, at address 6, under which Adam
  holds no state; the buffers that were zeroed stay filed under the address of the
  replaced tensor.
\<close>

theorem Reset_opacity_orphans_adam_state:
  "state (optimizer example_trained) 5 =
     Some \<lparr>step = 3, exp_avg = [[Fin 1], [Fin 2]], exp_avg_sq = [[Fin 1], [Fin 4]]\<rparr> \<and>
   fst (Reset_opacity example_trained) = None \<and>
   rows (opacity (snd (Reset_opacity example_trained))) =
     [[inverse_sigmoid (Fin (1 / 100))], [inverse_sigmoid (Fin (1 / 100))]] \<and>
   param_groups (optimizer (snd (Reset_opacity example_trained))) ! 5 =
     [opacity (snd (Reset_opacity example_trained))] \<and>
   impl (opacity (snd (Reset_opacity example_trained))) = 6 \<and>
   state (optimizer (snd (Reset_opacity example_trained))) 6 = None \<and>
   state (optimizer (snd (Reset_opacity example_trained))) 5 =
     Some \<lparr>step = 3, exp_avg = [[Fin 0], [Fin 0]], exp_avg_sq = [[Fin 0], [Fin 0]]\<rparr>"
  by (simp add: Reset_opacity_def example_trained_def example_defs grad_defined_def mapping_def
        Get_opacity_def set_param_def Let_def)

end
